theory Spec2Isabelle
  imports Complex_Main "HOL-Library.Word" "HOL-Library.Multiset" "HOL-Library.Sublist"
begin

section \<open>Values of the language\<close>

subsection \<open>Strings\<close>

text \<open>
  A string of the program is a sequence of 16-bit code units; \<open>length\<close> counts code
  units, as the \<^verbatim>\<open>.length\<close> of the source does. \<open>ascii\<close> writes a literal of the
  source (\<^verbatim>\<open>'text/plain'\<close>, \<^verbatim>\<open>"abcd"\<close>) as such a sequence.
\<close>

type_synonym code_unit = "16 word"
type_synonym jsstring = "code_unit list"

definition ascii :: "string \<Rightarrow> jsstring" where
  "ascii cs = map of_char cs"

text \<open>
  \<^verbatim>\<open>String.prototype.trim\<close> removes white space and line terminators from both ends:
  TAB, LF, VT, FF, CR, SP, NBSP, U+1680, U+2000 to U+200A, LS, PS, U+202F, U+205F,
  U+3000 and the byte order mark.
\<close>

definition isWhiteSpace :: "code_unit \<Rightarrow> bool" where
  "isWhiteSpace c = (c \<in> set [0x9, 0xA, 0xB, 0xC, 0xD, 0x20, 0xA0, 0x1680, 0x2000, 0x2001,
     0x2002, 0x2003, 0x2004, 0x2005, 0x2006, 0x2007, 0x2008, 0x2009, 0x200A, 0x2028, 0x2029,
     0x202F, 0x205F, 0x3000, 0xFEFF])"

definition trim :: "jsstring \<Rightarrow> jsstring" where
  "trim s = rev (dropWhile isWhiteSpace (rev (dropWhile isWhiteSpace s)))"

subsection \<open>Numbers\<close>

text \<open>
  A \<^verbatim>\<open>number\<close> of the program is a double. The program only stores and compares
  numbers, and comparison of doubles is exact, so a finite number is modelled by the
  rational it denotes (every finite double is one; both zeros are \<open>Finite 0\<close>), next to
  the three values that are not finite.
\<close>

datatype number = NaN | NegInfinity | Finite rat | PosInfinity

text \<open>
  The comparison the relational operators are built on: \<open>None\<close> is the result
  \<^verbatim>\<open>undefined\<close> that a \<open>NaN\<close> operand gives.
\<close>

fun isLessThan :: "number \<Rightarrow> number \<Rightarrow> bool option" where
  "isLessThan NaN y = None"
| "isLessThan x NaN = None"
| "isLessThan PosInfinity y = Some False"
| "isLessThan x PosInfinity = Some True"
| "isLessThan x NegInfinity = Some False"
| "isLessThan NegInfinity y = Some True"
| "isLessThan (Finite a) (Finite b) = Some (a < b)"

text \<open>\<^verbatim>\<open>x >= y\<close> and \<^verbatim>\<open>x <= y\<close>: false when the comparison is undefined.\<close>

definition ge_num :: "number \<Rightarrow> number \<Rightarrow> bool" where
  "ge_num x y = (case isLessThan x y of Some False \<Rightarrow> True | _ \<Rightarrow> False)"

definition le_num :: "number \<Rightarrow> number \<Rightarrow> bool" where
  "le_num x y = (case isLessThan y x of Some False \<Rightarrow> True | _ \<Rightarrow> False)"

text \<open>The \<^verbatim>\<open>.length\<close> of a string, as a number.\<close>

definition string_length :: "jsstring \<Rightarrow> number" where
  "string_length s = Finite (of_nat (length s))"

subsection \<open>The union type \<^verbatim>\<open>string | number\<close>\<close>

datatype js_value = Str jsstring | Num number

text \<open>
  \<^verbatim>\<open>value.toString()\<close>: the identity on a string. On a number it is the platform's
  \<^verbatim>\<open>Number.prototype.toString\<close>, which the repository does not define; it is a
  parameter of the model.
\<close>

fun toString :: "(number \<Rightarrow> jsstring) \<Rightarrow> js_value \<Rightarrow> jsstring" where
  "toString numberToString (Str s) = s"
| "toString numberToString (Num n) = numberToString n"

section \<open>Validation\<close>

text \<open>
  The interface \<^verbatim>\<open>Validatable\<close>. An optional property that is absent (or
  \<^verbatim>\<open>undefined\<close>, or \<^verbatim>\<open>null\<close>) is \<open>None\<close>.
\<close>

record Validatable =
  value_v :: js_value
  required :: "bool option"
  minLength :: "number option"
  maxLength :: "number option"
  min_v :: "number option"
  max_v :: "number option"

text \<open>
  \<^verbatim>\<open>validate\<close>, statement by statement: \<open>isValid\<close> is reassigned by each
  \<^verbatim>\<open>if\<close> whose condition holds. \<^verbatim>\<open>if (validatableInput.required)\<close> holds for
  \<^verbatim>\<open>true\<close> only; \<^verbatim>\<open>!= null\<close> holds for a property that is present; the
  \<^verbatim>\<open>typeof\<close> tests are the constructors of \<open>js_value\<close>.
\<close>

definition validate :: "(number \<Rightarrow> jsstring) \<Rightarrow> Validatable \<Rightarrow> bool" where
  "validate numberToString validatableInput =
    (let isValid = True;
         isValid =
           (if required validatableInput = Some True
            then isValid \<and> length (trim (toString numberToString (value_v validatableInput))) \<noteq> 0
            else isValid);
         isValid =
           (case (minLength validatableInput, value_v validatableInput) of
              (Some n, Str s) \<Rightarrow> isValid \<and> ge_num (string_length s) n
            | _ \<Rightarrow> isValid);
         isValid =
           (case (maxLength validatableInput, value_v validatableInput) of
              (Some n, Str s) \<Rightarrow> isValid \<and> le_num (string_length s) n
            | _ \<Rightarrow> isValid);
         isValid =
           (case (min_v validatableInput, value_v validatableInput) of
              (Some n, Num x) \<Rightarrow> isValid \<and> ge_num x n
            | _ \<Rightarrow> isValid);
         isValid =
           (case (max_v validatableInput, value_v validatableInput) of
              (Some n, Num x) \<Rightarrow> isValid \<and> le_num x n
            | _ \<Rightarrow> isValid)
     in isValid)"

subsection \<open>The rules as the specification words them\<close>

text \<open>
  The specification reads a \<^verbatim>\<open>Validatable\<close> as a set of rules, all of which must
  pass: \<open>required\<close>, the value's string form is non-empty after trimming;
  \<open>minLength\<close> and \<open>maxLength\<close>, a floor and a ceiling of the string length;
  \<open>min\<close> and \<open>max\<close>, a floor and a ceiling of the numeric value. A length rule has
  nothing to bound on a number, and a numeric rule nothing on a string: there it
  passes.
\<close>

definition required_rule :: "(number \<Rightarrow> jsstring) \<Rightarrow> js_value \<Rightarrow> bool" where
  "required_rule numberToString v = (trim (toString numberToString v) \<noteq> [])"

fun minLength_rule :: "number \<Rightarrow> js_value \<Rightarrow> bool" where
  "minLength_rule n (Str s) = ge_num (string_length s) n"
| "minLength_rule n (Num x) = True"

fun maxLength_rule :: "number \<Rightarrow> js_value \<Rightarrow> bool" where
  "maxLength_rule n (Str s) = le_num (string_length s) n"
| "maxLength_rule n (Num x) = True"

fun min_rule :: "number \<Rightarrow> js_value \<Rightarrow> bool" where
  "min_rule n (Num x) = ge_num x n"
| "min_rule n (Str s) = True"

fun max_rule :: "number \<Rightarrow> js_value \<Rightarrow> bool" where
  "max_rule n (Num x) = le_num x n"
| "max_rule n (Str s) = True"

text \<open>A rule that is not specified passes; one that is specified is applied.\<close>

definition passes :: "'a option \<Rightarrow> ('a \<Rightarrow> bool) \<Rightarrow> bool" where
  "passes rule check = (case rule of None \<Rightarrow> True | Some a \<Rightarrow> check a)"

definition all_rules_pass :: "(number \<Rightarrow> jsstring) \<Rightarrow> Validatable \<Rightarrow> bool" where
  "all_rules_pass numberToString v =
    (passes (required v) (\<lambda>r. if r then required_rule numberToString (value_v v) else True)
     \<and> passes (minLength v) (\<lambda>n. minLength_rule n (value_v v))
     \<and> passes (maxLength v) (\<lambda>n. maxLength_rule n (value_v v))
     \<and> passes (min_v v) (\<lambda>n. min_rule n (value_v v))
     \<and> passes (max_v v) (\<lambda>n. max_rule n (value_v v)))"

section \<open>The project store\<close>

subsection \<open>Projects and the heap\<close>

datatype ProjectStatus = Active | Finished

text \<open>The class \<^verbatim>\<open>Project\<close>; its field \<^verbatim>\<open>id\<close> is \<open>id_p\<close> here.\<close>

record Project =
  id_p :: jsstring
  title :: jsstring
  description :: jsstring
  people :: number
  status :: ProjectStatus

text \<open>
  \<^verbatim>\<open>moveProject\<close> assigns to a field of a \<^verbatim>\<open>Project\<close> object that arrays handed to
  listeners also hold, and \<^verbatim>\<open>slice\<close> makes a new array of the same objects. Both kinds
  of object therefore live in a heap: \<open>objs\<close> maps the address of a \<^verbatim>\<open>Project\<close> to
  its fields, \<open>arrs\<close> maps the address of a \<^verbatim>\<open>Project[]\<close> to the addresses it
  holds. \<open>next_obj\<close> and \<open>next_arr\<close> are the addresses the next \<^verbatim>\<open>new Project\<close>
  and the next new array get.

  The state also holds the two fields of the one \<^verbatim>\<open>ProjectState\<close> instance:
  \<open>projects\<close>, the address of its private array, and \<open>listeners\<close>. A listener is a
  callback whose body lies outside the store; the model keeps it abstract (type \<open>'l\<close>)
  and records each invocation, with the array it was given, in the trace \<open>calls\<close>.
  A listener is taken not to call back into the store, as the two listeners of the
  program (the column filters) do not.
\<close>

type_synonym ref = nat
type_synonym aref = nat

record 'l state =
  objs :: "ref \<Rightarrow> Project"
  next_obj :: ref
  arrs :: "aref \<Rightarrow> ref list"
  next_arr :: aref
  projects :: aref
  listeners :: "'l list"
  calls :: "('l \<times> aref) list"

text \<open>
  \<^verbatim>\<open>ProjectState.getInstance()\<close> at its first call: \<^verbatim>\<open>new ProjectState()\<close>
  allocates the empty array \<open>projects\<close> at address 0 and starts with no listener.
  (Cells that are not allocated hold a filler.)
\<close>

definition getInstance :: "'l state" where
  "getInstance =
    \<lparr>objs = (\<lambda>r. \<lparr>id_p = [], title = [], description = [], people = NaN, status = Active\<rparr>),
     next_obj = 0,
     arrs = (\<lambda>a. []),
     next_arr = 1,
     projects = 0,
     listeners = [],
     calls = []\<rparr>"

subsection \<open>Heap operations\<close>

text \<open>\<^verbatim>\<open>new Project(...)\<close>: a fresh object.\<close>

definition new_Project :: "Project \<Rightarrow> 'l state \<Rightarrow> ref \<times> 'l state" where
  "new_Project p s = (next_obj s, s\<lparr>objs := (objs s)(next_obj s := p), next_obj := Suc (next_obj s)\<rparr>)"

text \<open>\<^verbatim>\<open>array.push(r)\<close>: the array at \<open>a\<close> grows in place.\<close>

definition push :: "aref \<Rightarrow> ref \<Rightarrow> 'l state \<Rightarrow> 'l state" where
  "push a r s = s\<lparr>arrs := (arrs s)(a := arrs s a @ [r])\<rparr>"

text \<open>\<^verbatim>\<open>array.slice()\<close>: a fresh array holding the same addresses.\<close>

definition slice :: "aref \<Rightarrow> 'l state \<Rightarrow> aref \<times> 'l state" where
  "slice a s = (next_arr s, s\<lparr>arrs := (arrs s)(next_arr s := arrs s a), next_arr := Suc (next_arr s)\<rparr>)"

text \<open>\<^verbatim>\<open>listenerFn(items)\<close>: the invocation is appended to the trace.\<close>

definition call_listener :: "'l \<Rightarrow> aref \<Rightarrow> 'l state \<Rightarrow> 'l state" where
  "call_listener listenerFn items s = s\<lparr>calls := calls s @ [(listenerFn, items)]\<rparr>"

subsection \<open>\<^verbatim>\<open>State\<close> and \<^verbatim>\<open>ProjectState\<close>\<close>

definition addListener :: "'l \<Rightarrow> 'l state \<Rightarrow> 'l state" where
  "addListener listenerFn s = s\<lparr>listeners := listeners s @ [listenerFn]\<rparr>"

text \<open>
  \<^verbatim>\<open>updateListeners\<close>: the loop \<^verbatim>\<open>for (const listenerFn of this.listeners)\<close>, whose
  body slices \<^verbatim>\<open>this.projects\<close> anew for each listener.
\<close>

fun notify :: "'l list \<Rightarrow> 'l state \<Rightarrow> 'l state" where
  "notify [] s = s"
| "notify (listenerFn # rest) s =
     (let (items, s) = slice (projects s) s
      in notify rest (call_listener listenerFn items s))"

definition updateListeners :: "'l state \<Rightarrow> 'l state" where
  "updateListeners s = notify (listeners s) s"

text \<open>
  \<^verbatim>\<open>addProject\<close>. The id is \<^verbatim>\<open>Math.random().toString()\<close> followed by
  \<^verbatim>\<open>new Date().toISOString()\<close>; the two strings come from the platform at each call,
  and are the inputs \<open>random\<close> and \<open>now\<close> of the model.
\<close>

definition addProject ::
    "jsstring \<Rightarrow> jsstring \<Rightarrow> jsstring \<Rightarrow> jsstring \<Rightarrow> number \<Rightarrow> 'l state \<Rightarrow> 'l state" where
  "addProject random now title' description' people' s =
    (let (newProject, s) =
           new_Project \<lparr>id_p = random @ now, title = title', description = description',
                        people = people', status = Active\<rparr> s;
         s = push (projects s) newProject s
     in updateListeners s)"

text \<open>
  \<^verbatim>\<open>moveProject\<close>. \<^verbatim>\<open>find\<close> returns the first project of the array with the id, or
  \<^verbatim>\<open>undefined\<close> (\<open>None\<close>); an object is truthy.
\<close>

definition moveProject :: "jsstring \<Rightarrow> ProjectStatus \<Rightarrow> 'l state \<Rightarrow> 'l state" where
  "moveProject projectId newStatus s =
    (case find (\<lambda>project. id_p (objs s project) = projectId) (arrs s (projects s)) of
       None \<Rightarrow> s
     | Some project \<Rightarrow>
         if status (objs s project) \<noteq> newStatus
         then updateListeners (s\<lparr>objs := (objs s)(project := (objs s project)\<lparr>status := newStatus\<rparr>)\<rparr>)
         else s)"

subsection \<open>States of a run\<close>

text \<open>The states the program can be in: those the three operations lead to.\<close>

inductive reachable :: "'l state \<Rightarrow> bool" where
  start: "reachable getInstance"
| listen: "reachable s \<Longrightarrow> reachable (addListener listenerFn s)"
| add: "reachable s \<Longrightarrow> reachable (addProject random now title' description' people' s)"
| move: "reachable s \<Longrightarrow> reachable (moveProject projectId newStatus s)"

text \<open>What a listener reads through an array it was given, in state \<open>s\<close>.\<close>

definition contents :: "'l state \<Rightarrow> aref \<Rightarrow> Project list" where
  "contents s a = map (objs s) (arrs s a)"

text \<open>
  What holds of every state of a run: the private array and every array handed out are
  allocated and hold allocated objects, and no array handed out is the private one.
\<close>

definition allocated :: "'l state \<Rightarrow> aref \<Rightarrow> bool" where
  "allocated s a = (a < next_arr s \<and> list_all (\<lambda>r. r < next_obj s) (arrs s a))"

definition well_formed :: "'l state \<Rightarrow> bool" where
  "well_formed s = (allocated s (projects s)
     \<and> list_all (\<lambda>(listenerFn, items). allocated s items \<and> items \<noteq> projects s) (calls s))"

section \<open>The column view and the drag transfer\<close>

text \<open>The two columns: the \<^verbatim>\<open>type\<close> of a \<^verbatim>\<open>ProjectList\<close>.\<close>

datatype column = active | finished

text \<open>
  The filter of the listener that \<^verbatim>\<open>ProjectList.configure\<close> registers, on the array
  it is given, reading the status of each project in the heap \<open>h\<close>.
\<close>

definition relevantProjects :: "column \<Rightarrow> (ref \<Rightarrow> Project) \<Rightarrow> ref list \<Rightarrow> ref list" where
  "relevantProjects type h projects' =
     filter (\<lambda>prj. if type = active then status (h prj) = Active
                    else status (h prj) = Finished) projects'"

text \<open>
  The platform's \<^verbatim>\<open>DataTransfer\<close>, as far as the handlers use it: the data stored by
  format, and \<^verbatim>\<open>effectAllowed\<close>. \<^verbatim>\<open>getData\<close> of a format with no data is the
  empty string. The \<^verbatim>\<open>dataTransfer\<close> of a \<^verbatim>\<open>DragEvent\<close> may be \<^verbatim>\<open>null\<close>.
\<close>

record DataTransfer =
  items :: "jsstring \<rightharpoonup> jsstring"
  effectAllowed :: jsstring

record DragEvent =
  dataTransfer :: "DataTransfer option"

definition setData :: "jsstring \<Rightarrow> jsstring \<Rightarrow> DataTransfer \<Rightarrow> DataTransfer" where
  "setData format d dt = dt\<lparr>items := (items dt)(format \<mapsto> d)\<rparr>"

definition getData :: "jsstring \<Rightarrow> DataTransfer \<Rightarrow> jsstring" where
  "getData format dt = (case items dt format of None \<Rightarrow> [] | Some d \<Rightarrow> d)"

text \<open>
  The handlers read \<^verbatim>\<open>event.dataTransfer!\<close>: on \<^verbatim>\<open>null\<close> the property access
  throws a \<^verbatim>\<open>TypeError\<close>.
\<close>

datatype error = TypeError

text \<open>
  \<^verbatim>\<open>ProjectItem.dragStartHandler\<close>. The item holds the address of its project; the
  handler reads the project's id in the state and writes to the event only.
\<close>

record ProjectItem =
  project :: ref

definition dragStartHandler :: "ProjectItem \<Rightarrow> 'l state \<Rightarrow> DragEvent \<Rightarrow> error + DragEvent" where
  "dragStartHandler this s event =
    (case dataTransfer event of
       None \<Rightarrow> Inl TypeError
     | Some dt \<Rightarrow>
         Inr (event\<lparr>dataTransfer :=
           Some ((setData (ascii ''text/plain'') (id_p (objs s (project this))) dt)
                   \<lparr>effectAllowed := ascii ''move''\<rparr>)\<rparr>))"

text \<open>\<^verbatim>\<open>ProjectList.dropHandler\<close> of the column \<open>type\<close>.\<close>

definition dropHandler :: "column \<Rightarrow> DragEvent \<Rightarrow> 'l state \<Rightarrow> error + 'l state" where
  "dropHandler type event s =
    (case dataTransfer event of
       None \<Rightarrow> Inl TypeError
     | Some dt \<Rightarrow>
         (let projectId = getData (ascii ''text/plain'') dt
          in Inr (moveProject projectId (if type = active then Active else Finished) s)))"

subsection \<open>Runs\<close>

text \<open>The ids of the stored projects, in list order.\<close>

definition ids :: "'l state \<Rightarrow> jsstring list" where
  "ids s = map (\<lambda>r. id_p (objs s r)) (arrs s (projects s))"

text \<open>
  A sequence of \<^verbatim>\<open>addProject\<close> calls, each with the two strings the platform
  gives it and its three arguments.
\<close>

fun addProjects ::
    "(jsstring \<times> jsstring \<times> jsstring \<times> jsstring \<times> number) list \<Rightarrow> 'l state \<Rightarrow> 'l state" where
  "addProjects [] s = s"
| "addProjects ((random, now, title', description', people') # rest) s =
     addProjects rest (addProject random now title' description' people' s)"

text \<open>
  The program as it starts: the two columns register their listeners, the active column
  first. Then one project is added; then a second one, for which the platform gives the
  same two strings as for the first.
\<close>

abbreviation board :: "column state" where
  "board \<equiv> addListener finished (addListener active getInstance)"

abbreviation one_project :: "column state" where
  "one_project \<equiv> addProject (ascii ''0.5'') (ascii ''2024-01-01T00:00:00.000Z'')
     (ascii ''Build API'') (ascii ''Create REST endpoints'') (Finite 3) board"

abbreviation two_projects :: "column state" where
  "two_projects \<equiv> addProject (ascii ''0.5'') (ascii ''2024-01-01T00:00:00.000Z'')
     (ascii ''Write docs'') (ascii ''Describe the endpoints'') (Finite 2) one_project"

section \<open>Validation: results\<close>

lemma validate_unfold:
  "validate nts v =
    ((required v = Some True \<longrightarrow> trim (toString nts (value_v v)) \<noteq> [])
     \<and> (case (minLength v, value_v v) of (Some n, Str s) \<Rightarrow> ge_num (string_length s) n | _ \<Rightarrow> True)
     \<and> (case (maxLength v, value_v v) of (Some n, Str s) \<Rightarrow> le_num (string_length s) n | _ \<Rightarrow> True)
     \<and> (case (min_v v, value_v v) of (Some n, Num x) \<Rightarrow> ge_num x n | _ \<Rightarrow> True)
     \<and> (case (max_v v, value_v v) of (Some n, Num x) \<Rightarrow> le_num x n | _ \<Rightarrow> True))"
  unfolding validate_def Let_def
  by (cases "minLength v"; cases "maxLength v"; cases "min_v v"; cases "max_v v";
      cases "value_v v") auto

lemma all_rules_pass_unfold:
  "all_rules_pass nts v =
    ((required v = Some True \<longrightarrow> trim (toString nts (value_v v)) \<noteq> [])
     \<and> (case (minLength v, value_v v) of (Some n, Str s) \<Rightarrow> ge_num (string_length s) n | _ \<Rightarrow> True)
     \<and> (case (maxLength v, value_v v) of (Some n, Str s) \<Rightarrow> le_num (string_length s) n | _ \<Rightarrow> True)
     \<and> (case (min_v v, value_v v) of (Some n, Num x) \<Rightarrow> ge_num x n | _ \<Rightarrow> True)
     \<and> (case (max_v v, value_v v) of (Some n, Num x) \<Rightarrow> le_num x n | _ \<Rightarrow> True))"
  unfolding all_rules_pass_def passes_def required_rule_def
  by (cases "required v"; cases "minLength v"; cases "maxLength v"; cases "min_v v";
      cases "max_v v"; cases "value_v v") auto

text \<open>
  C6. \<open>validate\<close> returns true exactly when every rule specified on the input
  passes. In particular an empty required value is invalid, a required four-letter value
  with \<open>minLength\<close> 5 is invalid, a required five-letter value with \<open>minLength\<close> 5 is
  valid, 3 within \<open>min\<close> 1 and \<open>max\<close> 5 is valid, and 6 is not.
\<close>

theorem validate_all_rules:
  "validate nts v = all_rules_pass nts v
   \<and> \<not> validate nts \<lparr>value_v = Str (ascii []), required = Some True, minLength = None,
          maxLength = None, min_v = None, max_v = None\<rparr>
   \<and> \<not> validate nts \<lparr>value_v = Str (ascii ''abcd''), required = Some True,
          minLength = Some (Finite 5), maxLength = None, min_v = None, max_v = None\<rparr>
   \<and> validate nts \<lparr>value_v = Str (ascii ''abcde''), required = Some True,
          minLength = Some (Finite 5), maxLength = None, min_v = None, max_v = None\<rparr>
   \<and> validate nts \<lparr>value_v = Num (Finite 3), required = None, minLength = None,
          maxLength = None, min_v = Some (Finite 1), max_v = Some (Finite 5)\<rparr>
   \<and> \<not> validate nts \<lparr>value_v = Num (Finite 6), required = None, minLength = None,
          maxLength = None, min_v = Some (Finite 1), max_v = Some (Finite 5)\<rparr>"
proof -
  have general: "validate nts v = all_rules_pass nts v"
    by (simp only: validate_unfold all_rules_pass_unfold)
  have e1: "\<not> validate nts \<lparr>value_v = Str (ascii []), required = Some True,
      minLength = None, maxLength = None, min_v = None, max_v = None\<rparr>"
    by (simp add: validate_unfold ascii_def trim_def)
  have e2: "\<not> validate nts \<lparr>value_v = Str (ascii ''abcd''), required = Some True,
      minLength = Some (Finite 5), maxLength = None, min_v = None, max_v = None\<rparr>"
    by (simp add: validate_unfold ascii_def string_length_def ge_num_def)
  have e3: "validate nts \<lparr>value_v = Str (ascii ''abcde''), required = Some True,
      minLength = Some (Finite 5), maxLength = None, min_v = None, max_v = None\<rparr>"
    by (simp add: validate_unfold ascii_def string_length_def ge_num_def trim_def
        isWhiteSpace_def)
  have e4: "validate nts \<lparr>value_v = Num (Finite 3), required = None, minLength = None,
      maxLength = None, min_v = Some (Finite 1), max_v = Some (Finite 5)\<rparr>"
    by (simp add: validate_unfold ge_num_def le_num_def)
  have e5: "\<not> validate nts \<lparr>value_v = Num (Finite 6), required = None, minLength = None,
      maxLength = None, min_v = Some (Finite 1), max_v = Some (Finite 5)\<rparr>"
    by (simp add: validate_unfold ge_num_def le_num_def)
  from general e1 e2 e3 e4 e5 show ?thesis by blast
qed

text \<open>
  The theorem at a description field holding two spaces, \<^verbatim>\<open>hi\<close> and a space:
  \<open>required\<close> passes (the trimmed value is \<^verbatim>\<open>hi\<close>) and \<open>minLength\<close> 5 passes on
  the untrimmed length 5.
\<close>

theorem validate_all_rules_witness:
  "all_rules_pass (\<lambda>n. ascii ''0'') \<lparr>value_v = Str (ascii ''  hi ''), required = Some True,
      minLength = Some (Finite 5), maxLength = None, min_v = None, max_v = None\<rparr>
   \<and> validate (\<lambda>n. ascii ''0'') \<lparr>value_v = Str (ascii ''  hi ''), required = Some True,
      minLength = Some (Finite 5), maxLength = None, min_v = None, max_v = None\<rparr>"
proof -
  have "all_rules_pass (\<lambda>n. ascii ''0'') \<lparr>value_v = Str (ascii ''  hi ''),
      required = Some True, minLength = Some (Finite 5), maxLength = None, min_v = None,
      max_v = None\<rparr>"
    by (simp add: all_rules_pass_def passes_def required_rule_def ascii_def trim_def
        isWhiteSpace_def string_length_def ge_num_def)
  then show ?thesis
    using validate_all_rules [of "\<lambda>n. ascii ''0''" "\<lparr>value_v = Str (ascii ''  hi ''),
      required = Some True, minLength = Some (Finite 5), maxLength = None, min_v = None,
      max_v = None\<rparr>"] by blast
qed

text \<open>
  C10. \<open>validate\<close> applies a rule only to a value of the matching type. On a string
  the \<open>min\<close> and \<open>max\<close> rules do not affect the result (so a string with only
  \<open>min\<close> 1 and \<open>max\<close> 5 is valid, whatever it is); on a number the \<open>minLength\<close> and
  \<open>maxLength\<close> rules do not affect it.
\<close>

theorem validate_type_gated:
  "validate nts (v\<lparr>value_v := Str s, min_v := lo, max_v := hi\<rparr>)
     = validate nts (v\<lparr>value_v := Str s, min_v := None, max_v := None\<rparr>)
   \<and> validate nts \<lparr>value_v = Str s, required = None, minLength = None, maxLength = None,
        min_v = Some (Finite 1), max_v = Some (Finite 5)\<rparr>
   \<and> validate nts (v\<lparr>value_v := Num x, minLength := lo, maxLength := hi\<rparr>)
     = validate nts (v\<lparr>value_v := Num x, minLength := None, maxLength := None\<rparr>)"
  by (simp add: validate_unfold split: option.splits)

section \<open>The store: results\<close>

subsection \<open>The broadcast loop\<close>

lemma notify_frame:
  "objs (notify ls s) = objs s \<and> next_obj (notify ls s) = next_obj s
   \<and> projects (notify ls s) = projects s \<and> listeners (notify ls s) = listeners s
   \<and> next_arr (notify ls s) = next_arr s + length ls"
  by (induction ls arbitrary: s) (simp_all add: slice_def call_listener_def)

lemma upt_add_Suc: "[n ..< n + Suc k] = n # [Suc n ..< Suc n + k]"
  by (simp add: upt_rec)

text \<open>The loop calls the listeners from first to last, each with the next fresh array.\<close>

lemma notify_calls:
  "calls (notify ls s) = calls s @ zip ls [next_arr s ..< next_arr s + length ls]"
proof (induction ls arbitrary: s)
  case Nil
  show ?case by simp
next
  case (Cons l ls)
  have "[next_arr s ..< next_arr s + length (l # ls)]
        = next_arr s # [Suc (next_arr s) ..< Suc (next_arr s) + length ls]"
    using upt_add_Suc [of "next_arr s" "length ls"] by simp
  then show ?case
    by (simp add: Cons.IH slice_def call_listener_def)
qed

text \<open>Each fresh array holds what the private array holds; no other array changes.\<close>

lemma notify_arrs:
  "arrs (notify ls s) a =
     (if next_arr s \<le> a \<and> a < next_arr s + length ls then arrs s (projects s) else arrs s a)"
proof (induction ls arbitrary: s)
  case Nil
  show ?case by auto
next
  case (Cons l ls)
  show ?case
    by (auto simp add: Cons.IH slice_def call_listener_def)
qed

lemma updateListeners_frame:
  "objs (updateListeners s) = objs s \<and> next_obj (updateListeners s) = next_obj s
   \<and> projects (updateListeners s) = projects s \<and> listeners (updateListeners s) = listeners s
   \<and> next_arr (updateListeners s) = next_arr s + length (listeners s)"
  unfolding updateListeners_def by (rule notify_frame)

lemma updateListeners_calls:
  "calls (updateListeners s)
     = calls s @ zip (listeners s) [next_arr s ..< next_arr s + length (listeners s)]"
  unfolding updateListeners_def by (rule notify_calls)

lemma updateListeners_arrs:
  "arrs (updateListeners s) a =
     (if next_arr s \<le> a \<and> a < next_arr s + length (listeners s)
      then arrs s (projects s) else arrs s a)"
  unfolding updateListeners_def by (rule notify_arrs)


subsection \<open>What the two operations write\<close>

lemma addProject_objs:
  "objs (addProject random now t d n s)
     = (objs s)(next_obj s := \<lparr>id_p = random @ now, title = t, description = d, people = n,
          status = Active\<rparr>)"
  by (simp add: addProject_def new_Project_def push_def updateListeners_frame)

lemma addProject_private:
  "projects (addProject random now t d n s) = projects s
   \<and> arrs (addProject random now t d n s) (projects s) = arrs s (projects s) @ [next_obj s]"
  by (simp add: addProject_def new_Project_def push_def updateListeners_frame
      updateListeners_arrs)

lemma addProject_calls:
  "calls (addProject random now t d n s)
     = calls s @ zip (listeners s) [next_arr s ..< next_arr s + length (listeners s)]"
  by (simp add: addProject_def new_Project_def push_def updateListeners_frame
      updateListeners_calls)


lemma addProject_arrs_old:
  "a < next_arr s \<Longrightarrow> a \<noteq> projects s \<Longrightarrow> arrs (addProject random now t d n s) a = arrs s a"
  by (simp add: addProject_def new_Project_def push_def updateListeners_arrs)

lemma moveProject_arrs_old:
  "a < next_arr s \<Longrightarrow> arrs (moveProject projectId newStatus s) a = arrs s a"
  by (simp add: moveProject_def updateListeners_arrs split: option.splits)

lemma moveProject_objs:
  "objs (moveProject projectId newStatus s) r = objs s r
   \<or> objs (moveProject projectId newStatus s) r = (objs s r)\<lparr>status := newStatus\<rparr>"
  by (simp add: moveProject_def updateListeners_frame split: option.splits)

text \<open>Where the ids of the stored projects are distinct, each is the first with its id.\<close>

lemma first_with_id:
  assumes "distinct (ids s)" and "p \<in> set (arrs s (projects s))"
  shows "find (\<lambda>q. id_p (objs s q) = id_p (objs s p)) (arrs s (projects s)) = Some p"
proof -
  have "distinct (map f xs) \<Longrightarrow> p \<in> set xs \<Longrightarrow> find (\<lambda>q. f q = f p) xs = Some p"
    for f :: "ref \<Rightarrow> jsstring" and xs
    by (induction xs) auto
  from this [of "\<lambda>r. id_p (objs s r)" "arrs s (projects s)"] assms
  show ?thesis by (simp add: ids_def)
qed

subsection \<open>Every state of a run is well formed\<close>

lemma well_formed_getInstance: "well_formed getInstance"
  by (simp add: well_formed_def allocated_def getInstance_def)

lemma well_formed_addListener: "well_formed s \<Longrightarrow> well_formed (addListener f s)"
  by (simp add: well_formed_def allocated_def addListener_def)

lemma well_formed_updateListeners:
  assumes "well_formed s"
  shows "well_formed (updateListeners s)"
proof -
  let ?n = "next_arr s" and ?k = "length (listeners s)"
  from assms have priv: "projects s < ?n" "list_all (\<lambda>r. r < next_obj s) (arrs s (projects s))"
    and old: "\<forall>(l, a) \<in> set (calls s).
        a < ?n \<and> list_all (\<lambda>r. r < next_obj s) (arrs s a) \<and> a \<noteq> projects s"
    by (auto simp add: well_formed_def allocated_def list_all_iff)
  have new: "\<forall>(l, a) \<in> set (zip (listeners s) [?n ..< ?n + ?k]). ?n \<le> a \<and> a < ?n + ?k"
    by (auto dest: set_zip_rightD)
  show ?thesis
    unfolding well_formed_def allocated_def
    using priv old new
    by (auto simp add: updateListeners_frame updateListeners_arrs updateListeners_calls
        list_all_iff)
qed

lemma well_formed_status:
  "well_formed s \<Longrightarrow> well_formed (s\<lparr>objs := (objs s)(p := (objs s p)\<lparr>status := st\<rparr>)\<rparr>)"
  by (simp add: well_formed_def allocated_def)

lemma well_formed_moveProject:
  "well_formed s \<Longrightarrow> well_formed (moveProject projectId newStatus s)"
  by (simp add: moveProject_def well_formed_updateListeners well_formed_status
      split: option.splits)

lemma well_formed_push_new:
  assumes "well_formed s"
  shows "well_formed (push (projects s) (next_obj s)
      (s\<lparr>objs := (objs s)(next_obj s := p), next_obj := Suc (next_obj s)\<rparr>))"
  using assms unfolding well_formed_def allocated_def push_def
  by (auto simp add: list_all_iff less_Suc_eq)

lemma well_formed_addProject: "well_formed s \<Longrightarrow> well_formed (addProject random now t d n s)"
  by (simp add: addProject_def new_Project_def well_formed_updateListeners
      well_formed_push_new)

lemma reachable_well_formed: "reachable s \<Longrightarrow> well_formed s"
  by (induction rule: reachable.induct)
    (simp_all add: well_formed_getInstance well_formed_addListener well_formed_addProject
      well_formed_moveProject)

lemma ids_addProject:
  assumes "well_formed s"
  shows "ids (addProject random now t d n s) = ids s @ [random @ now]"
proof -
  from assms have "\<forall>r \<in> set (arrs s (projects s)). r < next_obj s"
    by (simp add: well_formed_def allocated_def list_all_iff)
  then show ?thesis
    using addProject_private [of random now t d n s]
    by (auto simp add: ids_def addProject_objs)
qed

subsection \<open>The example runs, evaluated\<close>

lemma board_eval:
  "objs board = objs getInstance \<and> next_obj board = 0 \<and> arrs board = (\<lambda>a. [])
   \<and> next_arr board = 1 \<and> projects board = 0
   \<and> listeners board = [active, finished] \<and> calls board = []"
  by (simp add: addListener_def getInstance_def)

lemma one_project_eval:
  "next_obj one_project = 1 \<and> next_arr one_project = 3 \<and> projects one_project = 0
   \<and> listeners one_project = [active, finished]
   \<and> calls one_project = [(active, 1), (finished, 2)]
   \<and> arrs one_project 0 = [0] \<and> arrs one_project 1 = [0] \<and> arrs one_project 2 = [0]
   \<and> objs one_project 0 = \<lparr>id_p = ascii ''0.5'' @ ascii ''2024-01-01T00:00:00.000Z'',
        title = ascii ''Build API'', description = ascii ''Create REST endpoints'',
        people = Finite 3, status = Active\<rparr>"
  by (simp add: addProject_def new_Project_def push_def updateListeners_frame
      updateListeners_arrs updateListeners_calls board_eval upt_rec)

lemma two_projects_eval:
  "next_obj two_projects = 2 \<and> next_arr two_projects = 5 \<and> projects two_projects = 0
   \<and> listeners two_projects = [active, finished]
   \<and> calls two_projects = [(active, 1), (finished, 2), (active, 3), (finished, 4)]
   \<and> arrs two_projects 0 = [0, 1] \<and> arrs two_projects 1 = [0] \<and> arrs two_projects 2 = [0]
   \<and> arrs two_projects 3 = [0, 1] \<and> arrs two_projects 4 = [0, 1]
   \<and> objs two_projects 0 = \<lparr>id_p = ascii ''0.5'' @ ascii ''2024-01-01T00:00:00.000Z'',
        title = ascii ''Build API'', description = ascii ''Create REST endpoints'',
        people = Finite 3, status = Active\<rparr>
   \<and> objs two_projects 1 = \<lparr>id_p = ascii ''0.5'' @ ascii ''2024-01-01T00:00:00.000Z'',
        title = ascii ''Write docs'', description = ascii ''Describe the endpoints'',
        people = Finite 2, status = Active\<rparr>"
  using one_project_eval
  by (simp add: addProject_def [of _ _ _ _ _ one_project] new_Project_def push_def
      updateListeners_frame updateListeners_arrs updateListeners_calls upt_rec)

lemma ascii_id:
  "ascii ''0.5'' @ ascii ''2024-01-01T00:00:00.000Z'' = ascii ''0.52024-01-01T00:00:00.000Z''"
  by (simp add: ascii_def)

lemma one_project_find:
  "find (\<lambda>project. id_p (objs one_project project) = ascii ''0.52024-01-01T00:00:00.000Z'')
       (arrs one_project (projects one_project)) = Some 0"
  using one_project_eval by (simp add: ascii_id)

subsection \<open>Moving a project\<close>

text \<open>
  C1. \<open>moveProject\<close> with an id that no stored project has, or with the status that the
  project found for the id already has, returns the state it was given: the heap, the
  list, the listeners and the trace of listener calls are all unchanged. The model of
  \<open>moveProject\<close> has no error result, as the source has no statement that throws.
\<close>

theorem moveProject_noop:
  assumes "(\<forall>p \<in> set (arrs s (projects s)). id_p (objs s p) \<noteq> projectId)
     \<or> (\<exists>p. find (\<lambda>project. id_p (objs s project) = projectId) (arrs s (projects s)) = Some p
            \<and> status (objs s p) = newStatus)"
  shows "moveProject projectId newStatus s = s"
  using assms
proof
  assume "\<forall>p \<in> set (arrs s (projects s)). id_p (objs s p) \<noteq> projectId"
  then have "find (\<lambda>project. id_p (objs s project) = projectId) (arrs s (projects s)) = None"
    by (simp add: find_None_iff)
  then show ?thesis by (simp add: moveProject_def)
next
  assume "\<exists>p. find (\<lambda>project. id_p (objs s project) = projectId) (arrs s (projects s)) = Some p
            \<and> status (objs s p) = newStatus"
  then show ?thesis by (auto simp add: moveProject_def)
qed

text \<open>
  Both cases on the board with one active project: dropping it on the active column, and
  a drop that carries an id the store does not have.
\<close>

theorem moveProject_noop_witness:
  "find (\<lambda>project. id_p (objs one_project project) = ascii ''0.52024-01-01T00:00:00.000Z'')
       (arrs one_project (projects one_project)) = Some 0
   \<and> status (objs one_project 0) = Active
   \<and> moveProject (ascii ''0.52024-01-01T00:00:00.000Z'') Active one_project = one_project
   \<and> ascii ''stale'' \<notin> set (ids one_project)
   \<and> moveProject (ascii ''stale'') Finished one_project = one_project"
proof -
  have st: "status (objs one_project 0) = Active"
    using one_project_eval by simp
  have n: "\<forall>p \<in> set (arrs one_project (projects one_project)).
      id_p (objs one_project p) \<noteq> ascii ''stale''"
    using one_project_eval by (simp add: ascii_def)
  have i: "ascii ''stale'' \<notin> set (ids one_project)"
    using n by (auto simp add: ids_def)
  show ?thesis
    using one_project_find st n i
      moveProject_noop [of one_project "ascii ''0.52024-01-01T00:00:00.000Z''" Active]
      moveProject_noop [of one_project "ascii ''stale''" Finished]
    by blast
qed

text \<open>
  C2 as stated, for every project \<open>p\<close> of the store, fails where two stored projects
  have the same id: \<open>find\<close> stops at the first. In \<open>two_projects\<close> both projects have
  the id \<^verbatim>\<open>0.52024-01-01T00:00:00.000Z\<close>; moving the second (address 1, active) to
  \<open>Finished\<close> by its id leaves it active and finishes the first (address 0).
\<close>

theorem moveProject_exactly_counterexample:
  "1 \<in> set (arrs two_projects (projects two_projects))
   \<and> status (objs two_projects 1) = Active
   \<and> status (objs (moveProject (id_p (objs two_projects 1)) Finished two_projects) 1) = Active
   \<and> status (objs two_projects 0) = Active
   \<and> status (objs (moveProject (id_p (objs two_projects 1)) Finished two_projects) 0) = Finished"
  using two_projects_eval
  by (simp add: moveProject_def updateListeners_frame)

text \<open>
  C2, amended. For a project \<open>p\<close> that is the first of the list with its id (every
  project of the list, by \<open>first_with_id\<close>, when the ids are distinct) and a status
  other than its own, \<open>moveProject\<close> with the id of \<open>p\<close> sets the status of \<open>p\<close>
  and changes no other field and no other object; the private array is the same array
  and holds the same addresses in the same order.
\<close>

theorem moveProject_changes_first:
  assumes "find (\<lambda>q. id_p (objs s q) = id_p (objs s p)) (arrs s (projects s)) = Some p"
    and "newStatus \<noteq> status (objs s p)"
  shows "objs (moveProject (id_p (objs s p)) newStatus s)
           = (objs s)(p := (objs s p)\<lparr>status := newStatus\<rparr>)
     \<and> projects (moveProject (id_p (objs s p)) newStatus s) = projects s
     \<and> arrs (moveProject (id_p (objs s p)) newStatus s) (projects s) = arrs s (projects s)"
  using assms
  by (simp add: moveProject_def updateListeners_frame updateListeners_arrs)

text \<open>The one project of \<open>one_project\<close>, dropped on the finished column.\<close>

theorem moveProject_changes_first_witness:
  "find (\<lambda>q. id_p (objs one_project q) = id_p (objs one_project 0))
       (arrs one_project (projects one_project)) = Some 0
   \<and> Finished \<noteq> status (objs one_project 0)
   \<and> objs (moveProject (id_p (objs one_project 0)) Finished one_project)
       = (objs one_project)(0 := (objs one_project 0)\<lparr>status := Finished\<rparr>)
   \<and> arrs (moveProject (id_p (objs one_project 0)) Finished one_project) (projects one_project)
       = arrs one_project (projects one_project)"
proof -
  have f: "find (\<lambda>q. id_p (objs one_project q) = id_p (objs one_project 0))
       (arrs one_project (projects one_project)) = Some 0"
    using one_project_eval by simp
  have st: "Finished \<noteq> status (objs one_project 0)"
    using one_project_eval by simp
  show ?thesis
    using f st moveProject_changes_first [OF f st] by blast
qed

subsection \<open>Adding a project\<close>

text \<open>
  C3. \<open>addProject\<close> on any state: the private array is the same array and holds one
  address more, the new object's, at its end; the new object has the id built from the
  two platform strings, the given title, description and people, and status \<open>Active\<close>,
  and no other object changes; the trace grows by one call for each listener, in the
  order of \<open>listeners\<close>: one broadcast.
\<close>

theorem addProject_appends:
  "projects (addProject random now t d n s) = projects s
   \<and> arrs (addProject random now t d n s) (projects s) = arrs s (projects s) @ [next_obj s]
   \<and> length (arrs (addProject random now t d n s) (projects s))
       = length (arrs s (projects s)) + 1
   \<and> objs (addProject random now t d n s)
       = (objs s)(next_obj s := \<lparr>id_p = random @ now, title = t, description = d, people = n,
            status = Active\<rparr>)
   \<and> calls (addProject random now t d n s)
       = calls s @ zip (listeners s) [next_arr s ..< next_arr s + length (listeners s)]"
  by (simp add: addProject_private addProject_objs addProject_calls)

text \<open>
  C9 as stated fails: nothing in \<open>addProject\<close> compares the new id with the ids in the
  store, and the id is the two platform strings only. When the platform gives two calls
  the same random number in the same millisecond, as in \<open>two_projects\<close>, the two
  projects have the same id.
\<close>

theorem ids_distinct_counterexample:
  "two_projects = addProjects
      [(ascii ''0.5'', ascii ''2024-01-01T00:00:00.000Z'', ascii ''Build API'',
        ascii ''Create REST endpoints'', Finite 3),
       (ascii ''0.5'', ascii ''2024-01-01T00:00:00.000Z'', ascii ''Write docs'',
        ascii ''Describe the endpoints'', Finite 2)] board
   \<and> ids two_projects
       = [ascii ''0.52024-01-01T00:00:00.000Z'', ascii ''0.52024-01-01T00:00:00.000Z'']
   \<and> \<not> distinct (ids two_projects)"
  using two_projects_eval by (simp add: ids_def ascii_id)

text \<open>
  C9, amended. After a sequence of \<open>addProject\<close> calls from a state of a run, the ids
  of the stored projects are the ids stored before, followed by the concatenation of the
  two platform strings of each call, in call order. So the ids of the created projects
  are pairwise distinct exactly when these concatenations are.
\<close>

theorem ids_are_the_draws:
  assumes "reachable s"
  shows "ids (addProjects cs s) = ids s @ map (\<lambda>(random, now, t, d, n). random @ now) cs"
  using assms
proof (induction cs arbitrary: s)
  case Nil
  show ?case by simp
next
  case (Cons c cs)
  obtain random now t d n where c: "c = (random, now, t, d, n)"
    by (cases c) auto
  have step: "reachable (addProject random now t d n s)"
    using Cons.prems by (rule reachable.add)
  have "ids (addProject random now t d n s) = ids s @ [random @ now]"
    using Cons.prems by (simp add: ids_addProject reachable_well_formed)
  then show ?case
    using Cons.IH [OF step] by (simp add: c)
qed

text \<open>Two calls, seven seconds apart, on the board as it starts.\<close>

theorem ids_are_the_draws_witness:
  "reachable board
   \<and> ids (addProjects [(ascii ''0.5'', ascii ''2024-01-01T00:00:00.000Z'', ascii ''Build API'',
        ascii ''Create REST endpoints'', Finite 3),
       (ascii ''0.25'', ascii ''2024-01-01T00:00:07.120Z'', ascii ''Write docs'',
        ascii ''Describe the endpoints'', Finite 2)] board)
      = [ascii ''0.52024-01-01T00:00:00.000Z'', ascii ''0.252024-01-01T00:00:07.120Z'']"
proof -
  have r: "reachable board"
    by (intro reachable.intros)
  have e: "ids board = []"
    by (simp add: ids_def board_eval)
  show ?thesis
    using r e ids_are_the_draws [OF r, of "[(ascii ''0.5'', ascii ''2024-01-01T00:00:00.000Z'',
        ascii ''Build API'', ascii ''Create REST endpoints'', Finite 3),
       (ascii ''0.25'', ascii ''2024-01-01T00:00:07.120Z'', ascii ''Write docs'',
        ascii ''Describe the endpoints'', Finite 2)]"]
    by (simp add: ascii_def del: addProjects.simps)
qed

subsection \<open>Broadcasts and the arrays they hand out\<close>



text \<open>
  C5 as stated fails: the array a listener is given is a copy, but the objects in it
  are the store's own, and \<open>moveProject\<close> assigns to the status of such an object. In
  \<open>one_project\<close> the active column's listener was given array 1, holding the one
  project, active; after the project is moved to \<open>Finished\<close>, the same array shows it
  finished.
\<close>

theorem snapshot_immutable_counterexample:
  "(active, 1) \<in> set (calls one_project)
   \<and> map status (contents one_project 1) = [Active]
   \<and> map status
        (contents (moveProject (ascii ''0.52024-01-01T00:00:00.000Z'') Finished one_project) 1)
       = [Finished]"
  using one_project_eval
  by (simp add: contents_def moveProject_def updateListeners_frame updateListeners_arrs ascii_id)

text \<open>
  C5, amended. In every state of a run, an array that a listener was given is not the
  store's private array; a later \<open>addProject\<close> changes nothing of what is read through
  it; a later \<open>moveProject\<close> leaves the array holding the same addresses in the same
  order, and what is read through it the same in every field but the status. A
  \<open>moveProject\<close> that changes a status (it finds the project \<open>p\<close>, whose status is
  another) is seen through the array: what is read through it afterwards is what was
  read before with the status of \<open>p\<close> replaced, and where the array holds \<open>p\<close> that
  differs from what was read before, every place of the array that holds \<open>p\<close> now
  showing the new status. (That the array holds, when it is handed out, what the private
  array holds is part of C8.)
\<close>

theorem snapshot_is_shallow_copy:
  assumes "reachable s" and "(listenerFn, items') \<in> set (calls s)"
  shows "items' \<noteq> projects s
     \<and> contents (addProject random now t d n s) items' = contents s items'
     \<and> arrs (moveProject projectId newStatus s) items' = arrs s items'
     \<and> map (\<lambda>p. p\<lparr>status := newStatus\<rparr>) (contents (moveProject projectId newStatus s) items')
         = map (\<lambda>p. p\<lparr>status := newStatus\<rparr>) (contents s items')
     \<and> (find (\<lambda>project. id_p (objs s project) = projectId) (arrs s (projects s)) = Some p
          \<and> status (objs s p) \<noteq> newStatus
        \<longrightarrow> contents (moveProject projectId newStatus s) items'
              = map ((objs s)(p := (objs s p)\<lparr>status := newStatus\<rparr>)) (arrs s items')
            \<and> (p \<in> set (arrs s items')
               \<longrightarrow> contents (moveProject projectId newStatus s) items' \<noteq> contents s items'
                 \<and> (\<forall>i < length (arrs s items'). arrs s items' ! i = p
                      \<longrightarrow> status (contents s items' ! i) \<noteq> newStatus
                        \<and> status (contents (moveProject projectId newStatus s) items' ! i)
                            = newStatus)))"
proof -
  from assms(1) have "well_formed s" by (rule reachable_well_formed)
  with assms(2) have a: "items' < next_arr s" "items' \<noteq> projects s"
    and b: "\<forall>r \<in> set (arrs s items'). r < next_obj s"
    by (auto simp add: well_formed_def allocated_def list_all_iff)
  have c: "contents (addProject random now t d n s) items' = contents s items'"
    using a b by (auto simp add: contents_def addProject_arrs_old addProject_objs)
  have d: "arrs (moveProject projectId newStatus s) items' = arrs s items'"
    using a by (simp add: moveProject_arrs_old)
  have "(objs (moveProject projectId newStatus s) r)\<lparr>status := newStatus\<rparr>
          = (objs s r)\<lparr>status := newStatus\<rparr>" for r
    using moveProject_objs [of projectId newStatus s r] by auto
  then have e: "map (\<lambda>p. p\<lparr>status := newStatus\<rparr>)
           (contents (moveProject projectId newStatus s) items')
         = map (\<lambda>p. p\<lparr>status := newStatus\<rparr>) (contents s items')"
    by (simp add: contents_def d)
  have v: "contents (moveProject projectId newStatus s) items'
              = map ((objs s)(p := (objs s p)\<lparr>status := newStatus\<rparr>)) (arrs s items')
            \<and> (p \<in> set (arrs s items')
               \<longrightarrow> contents (moveProject projectId newStatus s) items' \<noteq> contents s items'
                 \<and> (\<forall>i < length (arrs s items'). arrs s items' ! i = p
                      \<longrightarrow> status (contents s items' ! i) \<noteq> newStatus
                        \<and> status (contents (moveProject projectId newStatus s) items' ! i)
                            = newStatus))"
    if f: "find (\<lambda>project. id_p (objs s project) = projectId) (arrs s (projects s)) = Some p"
      and st: "status (objs s p) \<noteq> newStatus"
  proof -
    have o: "objs (moveProject projectId newStatus s)
        = (objs s)(p := (objs s p)\<lparr>status := newStatus\<rparr>)"
      using f st by (simp add: moveProject_def updateListeners_frame)
    have v1: "contents (moveProject projectId newStatus s) items'
        = map ((objs s)(p := (objs s p)\<lparr>status := newStatus\<rparr>)) (arrs s items')"
      by (simp add: contents_def d o)
    have v2: "contents (moveProject projectId newStatus s) items' \<noteq> contents s items'"
      if "p \<in> set (arrs s items')"
    proof
      assume "contents (moveProject projectId newStatus s) items' = contents s items'"
      with v1 have "map ((objs s)(p := (objs s p)\<lparr>status := newStatus\<rparr>)) (arrs s items')
          = map (objs s) (arrs s items')"
        by (simp only: contents_def)
      then have "\<forall>r \<in> set (arrs s items').
          ((objs s)(p := (objs s p)\<lparr>status := newStatus\<rparr>)) r = objs s r"
        by (simp only: map_eq_conv)
      with that have "(objs s p)\<lparr>status := newStatus\<rparr> = objs s p"
        by auto
      then have "status ((objs s p)\<lparr>status := newStatus\<rparr>) = status (objs s p)"
        by simp
      with st show False by simp
    qed
    have v3: "status (contents s items' ! i) \<noteq> newStatus
        \<and> status (contents (moveProject projectId newStatus s) items' ! i) = newStatus"
      if "i < length (arrs s items')" and "arrs s items' ! i = p" for i
      using that st by (simp add: contents_def d o)
    from v1 v2 v3 show ?thesis by blast
  qed
  from a(2) c d e v show ?thesis by blast
qed

text \<open>
  Array 1 of \<open>one_project\<close>, which holds the one project: after the second project is
  added, and after the one project is moved to \<open>Finished\<close>.
\<close>

theorem snapshot_is_shallow_copy_witness:
  "reachable one_project \<and> (active, 1) \<in> set (calls one_project)
   \<and> 1 \<noteq> projects one_project
   \<and> contents two_projects 1 = contents one_project 1
   \<and> arrs (moveProject (ascii ''0.52024-01-01T00:00:00.000Z'') Finished one_project) 1
       = arrs one_project 1
   \<and> map (\<lambda>p. p\<lparr>status := Finished\<rparr>)
        (contents (moveProject (ascii ''0.52024-01-01T00:00:00.000Z'') Finished one_project) 1)
       = map (\<lambda>p. p\<lparr>status := Finished\<rparr>) (contents one_project 1)
   \<and> find (\<lambda>project. id_p (objs one_project project) = ascii ''0.52024-01-01T00:00:00.000Z'')
        (arrs one_project (projects one_project)) = Some 0
   \<and> status (objs one_project 0) \<noteq> Finished
   \<and> 0 \<in> set (arrs one_project 1)
   \<and> arrs one_project 1 ! 0 = 0
   \<and> contents (moveProject (ascii ''0.52024-01-01T00:00:00.000Z'') Finished one_project) 1
       = [(objs one_project 0)\<lparr>status := Finished\<rparr>]
   \<and> contents (moveProject (ascii ''0.52024-01-01T00:00:00.000Z'') Finished one_project) 1
       \<noteq> contents one_project 1
   \<and> status (contents one_project 1 ! 0) \<noteq> Finished
   \<and> status
        (contents (moveProject (ascii ''0.52024-01-01T00:00:00.000Z'') Finished one_project) 1 ! 0)
       = Finished"
proof -
  have r: "reachable one_project"
    by (intro reachable.intros)
  have c: "(active, 1) \<in> set (calls one_project)"
    using one_project_eval by simp
  have st: "status (objs one_project 0) \<noteq> Finished"
    using one_project_eval by simp
  have m: "0 \<in> set (arrs one_project 1)" "arrs one_project 1 ! 0 = 0"
      "0 < length (arrs one_project 1)"
      "map ((objs one_project)(0 := (objs one_project 0)\<lparr>status := Finished\<rparr>))
          (arrs one_project 1) = [(objs one_project 0)\<lparr>status := Finished\<rparr>]"
    using one_project_eval by simp_all
  note inst = snapshot_is_shallow_copy [OF r c,
      of _ _ _ _ _ "ascii ''0.52024-01-01T00:00:00.000Z''" Finished 0]
  have g: "contents (moveProject (ascii ''0.52024-01-01T00:00:00.000Z'') Finished one_project) 1
       = [(objs one_project 0)\<lparr>status := Finished\<rparr>]"
    using inst one_project_find st m(4) by simp
  have h: "contents (moveProject (ascii ''0.52024-01-01T00:00:00.000Z'') Finished one_project) 1
       \<noteq> contents one_project 1"
    using inst one_project_find st m(1) by blast
  have i: "status (contents one_project 1 ! 0) \<noteq> Finished
      \<and> status (contents (moveProject (ascii ''0.52024-01-01T00:00:00.000Z'') Finished
            one_project) 1 ! 0) = Finished"
    using inst one_project_find st m(1,2,3) by blast
  show ?thesis
    using r c inst one_project_find st m(1,2) g h i by blast
qed

section \<open>The column view and the drag transfer: results\<close>

text \<open>
  C4. For every array of projects and every heap, the filter of the active column and
  the filter of the finished column have no project in common (as addresses, and as
  values), together they hold each project of the array as often as the array does, and
  each is a subsequence of the array: it keeps the array's order.
\<close>

theorem column_filter_partition:
  "set (relevantProjects active h ps) \<inter> set (relevantProjects finished h ps) = {}
   \<and> set (map h (relevantProjects active h ps))
       \<inter> set (map h (relevantProjects finished h ps)) = {}
   \<and> mset (relevantProjects active h ps) + mset (relevantProjects finished h ps) = mset ps
   \<and> subseq (relevantProjects active h ps) ps
   \<and> subseq (relevantProjects finished h ps) ps"
proof -
  have fin: "status (h r) = Finished \<longleftrightarrow> \<not> status (h r) = Active" for r
    by (cases "status (h r)") simp_all
  have a: "set (relevantProjects active h ps) \<inter> set (relevantProjects finished h ps) = {}"
    by (auto simp add: relevantProjects_def)
  have b: "set (map h (relevantProjects active h ps))
      \<inter> set (map h (relevantProjects finished h ps)) = {}"
    by (auto simp add: relevantProjects_def)
  have c: "mset (relevantProjects active h ps) + mset (relevantProjects finished h ps) = mset ps"
    by (simp add: relevantProjects_def fin)
  have d: "subseq (relevantProjects active h ps) ps" "subseq (relevantProjects finished h ps) ps"
    by (simp_all add: relevantProjects_def)
  from a b c d show ?thesis by blast
qed

text \<open>
  C7. On an event that has a \<open>dataTransfer\<close>, \<open>dragStartHandler\<close> stores the id of
  the item's project under \<^verbatim>\<open>text/plain\<close>, sets \<open>effectAllowed\<close> to \<^verbatim>\<open>move\<close> and
  changes nothing else of the event; it returns no state, as the handler writes to the
  event only. \<open>dropHandler\<close> on the event so written is \<open>moveProject\<close> with that id and
  the status of its column: \<open>Active\<close> for the active column, \<open>Finished\<close> for the
  finished one.
\<close>

theorem drag_transfer_carries_id:
  assumes "dataTransfer event = Some dt"
  shows "dragStartHandler this s event
      = Inr (event\<lparr>dataTransfer := Some (dt\<lparr>items :=
                (items dt)(ascii ''text/plain'' \<mapsto> id_p (objs s (project this))),
              effectAllowed := ascii ''move''\<rparr>)\<rparr>)
    \<and> dropHandler type
        (event\<lparr>dataTransfer := Some (dt\<lparr>items :=
                (items dt)(ascii ''text/plain'' \<mapsto> id_p (objs s (project this))),
              effectAllowed := ascii ''move''\<rparr>)\<rparr>) s
      = Inr (moveProject (id_p (objs s (project this)))
               (case type of active \<Rightarrow> Active | finished \<Rightarrow> Finished) s)"
  using assms
  by (cases type) (simp_all add: dragStartHandler_def dropHandler_def setData_def getData_def)

text \<open>The card of the one project of \<open>one_project\<close>, dragged to the finished column.\<close>

theorem drag_transfer_carries_id_witness:
  "dataTransfer \<lparr>dataTransfer = Some \<lparr>items = Map.empty, effectAllowed = ascii ''uninitialized''\<rparr>\<rparr>
     = Some \<lparr>items = Map.empty, effectAllowed = ascii ''uninitialized''\<rparr>
   \<and> dragStartHandler \<lparr>project = 0\<rparr> one_project
        \<lparr>dataTransfer = Some \<lparr>items = Map.empty, effectAllowed = ascii ''uninitialized''\<rparr>\<rparr>
     = Inr \<lparr>dataTransfer = Some
              \<lparr>items = [ascii ''text/plain'' \<mapsto> ascii ''0.52024-01-01T00:00:00.000Z''],
               effectAllowed = ascii ''move''\<rparr>\<rparr>
   \<and> dropHandler finished
        \<lparr>dataTransfer = Some
              \<lparr>items = [ascii ''text/plain'' \<mapsto> ascii ''0.52024-01-01T00:00:00.000Z''],
               effectAllowed = ascii ''move''\<rparr>\<rparr> one_project
     = Inr (moveProject (ascii ''0.52024-01-01T00:00:00.000Z'') Finished one_project)"
proof -
  have i: "id_p (objs one_project 0) = ascii ''0.52024-01-01T00:00:00.000Z''"
    using one_project_eval by (simp add: ascii_id)
  have h: "dataTransfer
      \<lparr>dataTransfer = Some \<lparr>items = Map.empty, effectAllowed = ascii ''uninitialized''\<rparr>\<rparr>
     = Some \<lparr>items = Map.empty, effectAllowed = ascii ''uninitialized''\<rparr>"
    by simp
  show ?thesis
    using drag_transfer_carries_id [OF h, of "\<lparr>project = 0\<rparr>" one_project finished] i
    by simp
qed

end
